theory Spec2Isabelle
  imports Main
begin

section \<open>The entity store\<close>

text \<open>
  The tables the claim, release, completion and session code reads and writes
  (\<open>order_items\<close>, \<open>orders\<close>, \<open>users\<close>, \<open>active_sessions\<close>), with the columns that code
  names. Identifiers are the strings the TypeScript passes around; a nullable column is
  an \<open>option\<close>. Timestamps (\<open>new Date().toISOString()\<close>, \<open>Date.now()\<close>) are natural
  numbers handed to each operation as \<open>now\<close>.
\<close>

type_synonym uuid = string
type_synonym timestamp = nat

datatype OrderStatus = Pending | Preparing | Ready | Served | Cancelled

record order_item =
  item_id :: uuid
  item_order_id :: uuid
  item_status :: string
  claimed_by_user_id :: "uuid option"
  item_claimed_at :: "timestamp option"
  completed_at :: "timestamp option"

record order =
  order_id :: uuid
  order_status :: OrderStatus
  claimed_by :: "uuid option"
  order_claimed_at :: "timestamp option"
  updated_at :: timestamp

record user =
  u_id :: uuid
  u_restaurant_id :: "uuid option"

record session =
  session_id :: uuid
  user_id :: uuid
  restaurant_id :: uuid
  session_type :: "string option"
  station :: "string option"
  station_id :: "string option"
  session_token :: "string option"
  user_name :: "string option"
  session_status :: string
  last_heartbeat :: "timestamp option"
  created_at :: "timestamp option"

text \<open>
  What the store answers to one awaited statement: it runs the statement (\<open>Ok\<close>), or it
  refuses it and the call resolves with its \<open>error\<close> field set (\<open>Err\<close>). The client the
  code uses reports every failed request this way and never rejects the awaited promise,
  so the \<open>catch\<close> blocks around the calls are not entered and have no branch here. A
  statement answered \<open>Err\<close> changes no table. The answers still to come are part of the
  world; when none is listed the store answers \<open>Ok\<close>.
\<close>

datatype outcome = Ok | Err

record world =
  order_items :: "order_item list"
  orders :: "order list"
  users :: "user list"
  active_sessions :: "session list"
  pending_outcomes :: "outcome list"

datatype 'a reply = Data 'a | Error

definition next_outcome :: "world \<Rightarrow> outcome" where
  "next_outcome w = (case pending_outcomes w of [] \<Rightarrow> Ok | x # _ \<Rightarrow> x)"

definition advance :: "world \<Rightarrow> world" where
  "advance w = w\<lparr>pending_outcomes := tl (pending_outcomes w)\<rparr>"

definition store_call :: "(world \<Rightarrow> 'a \<times> world) \<Rightarrow> world \<Rightarrow> 'a reply \<times> world" where
  "store_call stmt w =
     (case next_outcome w of
        Ok \<Rightarrow> (case stmt (advance w) of (r, w') \<Rightarrow> (Data r, w'))
      | Err \<Rightarrow> (Error, advance w))"

text \<open>The query builder: \<open>.update(patch)\<close> and \<open>.delete()\<close> under the filters chained on them.\<close>

definition update_where :: "('r \<Rightarrow> bool) \<Rightarrow> ('r \<Rightarrow> 'r) \<Rightarrow> 'r list \<Rightarrow> 'r list" where
  "update_where p patch rows = map (\<lambda>r. if p r then patch r else r) rows"

definition delete_where :: "('r \<Rightarrow> bool) \<Rightarrow> 'r list \<Rightarrow> 'r list" where
  "delete_where p rows = filter (\<lambda>r. \<not> p r) rows"

text \<open>JavaScript truthiness of a string that may be \<open>null\<close> or \<open>undefined\<close>.\<close>

definition truthy :: "string option \<Rightarrow> bool" where
  "truthy s = (case s of None \<Rightarrow> False | Some t \<Rightarrow> t \<noteq> [])"

section \<open>Kitchen sessions keyed by user and restaurant (lib/database)\<close>

text \<open>
  \<open>.from('users').select('restaurant_id').eq('id', userId).single()\<close>: \<open>single\<close> reports
  an error unless exactly one row matches.
\<close>

definition select_user_single :: "uuid \<Rightarrow> world \<Rightarrow> user option \<times> world" where
  "select_user_single userId w =
     (case filter (\<lambda>u. u_id u = userId) (users w) of
        [u] \<Rightarrow> (Some u, w)
      | _ \<Rightarrow> (None, w))"

text \<open>
  \<open>.upsert(row, {onConflict: 'user_id,restaurant_id'})\<close>. The schema of
  \<open>active_sessions\<close> is not part of the sources, so whether it carries the unique index
  on \<open>(user_id, restaurant_id)\<close> is the parameter \<open>uq\<close>: without the index the store
  rejects the conflict target; with it, the row of the pair takes the listed columns,
  or a new row is inserted under the identifier \<open>fresh\<close> the store generates.
\<close>

definition upsert_session ::
  "bool \<Rightarrow> uuid \<Rightarrow> timestamp \<Rightarrow> uuid \<Rightarrow> uuid \<Rightarrow> string \<Rightarrow> world \<Rightarrow> bool \<times> world" where
  "upsert_session uq fresh now userId restaurantId st w =
     (if \<not> uq then (False, w)
      else if list_ex (\<lambda>s. user_id s = userId \<and> restaurant_id s = restaurantId) (active_sessions w)
      then (True, w\<lparr>active_sessions :=
              update_where (\<lambda>s. user_id s = userId \<and> restaurant_id s = restaurantId)
                (\<lambda>s. s\<lparr>session_type := Some ''kitchen'', station := Some st,
                        session_status := ''active'', last_heartbeat := Some now,
                        created_at := Some now\<rparr>)
                (active_sessions w)\<rparr>)
      else (True, w\<lparr>active_sessions := active_sessions w @
              [\<lparr>session_id = fresh, user_id = userId, restaurant_id = restaurantId,
                session_type = Some ''kitchen'', station = Some st, station_id = None,
                session_token = None, user_name = None, session_status = ''active'',
                last_heartbeat = Some now, created_at = Some now\<rparr>]\<rparr>))"

definition createKitchenSession ::
  "bool \<Rightarrow> uuid \<Rightarrow> timestamp \<Rightarrow> uuid \<Rightarrow> string \<Rightarrow> world \<Rightarrow> world" where
  "createKitchenSession uq fresh now userId st w0 =
     (case store_call (select_user_single userId) w0 of
        (Error, w1) \<Rightarrow> w1
      | (Data None, w1) \<Rightarrow> w1
      | (Data (Some u), w1) \<Rightarrow>
          (if \<not> truthy (u_restaurant_id u) then w1
           else snd (store_call
                  (upsert_session uq fresh now userId (the (u_restaurant_id u)) st) w1)))"

section \<open>The claim coordinator (lib/database)\<close>

definition select_order_items :: "uuid \<Rightarrow> world \<Rightarrow> order_item list \<times> world" where
  "select_order_items orderId w = (filter (\<lambda>i. item_order_id i = orderId) (order_items w), w)"

definition alreadyClaimed :: "order_item list \<Rightarrow> uuid \<Rightarrow> bool" where
  "alreadyClaimed orderItems userId =
     list_ex (\<lambda>item. truthy (claimed_by_user_id item) \<and> claimed_by_user_id item \<noteq> Some userId)
       orderItems"

definition claim_items :: "timestamp \<Rightarrow> uuid \<Rightarrow> uuid \<Rightarrow> world \<Rightarrow> unit \<times> world" where
  "claim_items now orderId userId w =
     ((), w\<lparr>order_items :=
        update_where (\<lambda>i. item_order_id i = orderId \<and> claimed_by_user_id i = None)
          (\<lambda>i. i\<lparr>claimed_by_user_id := Some userId, item_claimed_at := Some now,
                  item_status := ''claimed''\<rparr>)
          (order_items w)\<rparr>)"

definition start_preparing :: "timestamp \<Rightarrow> uuid \<Rightarrow> world \<Rightarrow> unit \<times> world" where
  "start_preparing now orderId w =
     ((), w\<lparr>orders :=
        update_where (\<lambda>ord. order_id ord = orderId \<and> order_status ord = Pending)
          (\<lambda>ord. ord\<lparr>order_status := Preparing, updated_at := now\<rparr>)
          (orders w)\<rparr>)"

definition claimOrder ::
  "bool \<Rightarrow> uuid \<Rightarrow> timestamp \<Rightarrow> uuid \<Rightarrow> uuid \<Rightarrow> string option \<Rightarrow> world \<Rightarrow> bool \<times> world" where
  "claimOrder uq fresh now orderId userId st w0 =
     (case store_call (select_order_items orderId) w0 of
        (Error, w1) \<Rightarrow> (False, w1)
      | (Data orderItems, w1) \<Rightarrow>
          if orderItems = [] then (False, w1)
          else if alreadyClaimed orderItems userId then (False, w1)
          else (case store_call (claim_items now orderId userId) w1 of
                  (Error, w2) \<Rightarrow> (False, w2)
                | (Data _, w2) \<Rightarrow>
                    (case store_call (start_preparing now orderId) w2 of
                       (_, w3) \<Rightarrow>
                         (True, if truthy st
                                then createKitchenSession uq fresh now userId (the st) w3
                                else w3))))"

definition release_items :: "uuid \<Rightarrow> uuid \<Rightarrow> world \<Rightarrow> unit \<times> world" where
  "release_items orderId userId w =
     ((), w\<lparr>order_items :=
        update_where (\<lambda>i. item_order_id i = orderId \<and> claimed_by_user_id i = Some userId)
          (\<lambda>i. i\<lparr>claimed_by_user_id := None, item_claimed_at := None,
                  item_status := ''pending''\<rparr>)
          (order_items w)\<rparr>)"

definition select_claimed_items :: "uuid \<Rightarrow> world \<Rightarrow> order_item list \<times> world" where
  "select_claimed_items orderId w =
     (filter (\<lambda>i. item_order_id i = orderId \<and> claimed_by_user_id i \<noteq> None) (order_items w), w)"

definition reset_order :: "timestamp \<Rightarrow> uuid \<Rightarrow> world \<Rightarrow> unit \<times> world" where
  "reset_order now orderId w =
     ((), w\<lparr>orders :=
        update_where (\<lambda>ord. order_id ord = orderId)
          (\<lambda>ord. ord\<lparr>order_status := Pending, updated_at := now\<rparr>)
          (orders w)\<rparr>)"

definition releaseOrder :: "timestamp \<Rightarrow> uuid \<Rightarrow> uuid \<Rightarrow> world \<Rightarrow> bool \<times> world" where
  "releaseOrder now orderId userId w0 =
     (case store_call (release_items orderId userId) w0 of
        (Error, w1) \<Rightarrow> (False, w1)
      | (Data _, w1) \<Rightarrow>
          (case store_call (select_claimed_items orderId) w1 of
             (Error, w2) \<Rightarrow> (False, w2)
           | (Data remainingItems, w2) \<Rightarrow>
               if remainingItems = []
               then (case store_call (reset_order now orderId) w2 of
                       (_, w3) \<Rightarrow> (True, w3))
               else (True, w2)))"

definition complete_owned_item :: "timestamp \<Rightarrow> uuid \<Rightarrow> uuid \<Rightarrow> world \<Rightarrow> unit \<times> world" where
  "complete_owned_item now itemId userId w =
     ((), w\<lparr>order_items :=
        update_where (\<lambda>i. item_id i = itemId \<and> claimed_by_user_id i = Some userId)
          (\<lambda>i. i\<lparr>item_status := ''completed'', completed_at := Some now\<rparr>)
          (order_items w)\<rparr>)"

definition markItemCompleted :: "timestamp \<Rightarrow> uuid \<Rightarrow> uuid \<Rightarrow> world \<Rightarrow> bool \<times> world" where
  "markItemCompleted now itemId userId w0 =
     (case store_call (complete_owned_item now itemId userId) w0 of
        (Error, w1) \<Rightarrow> (False, w1)
      | (Data _, w1) \<Rightarrow> (True, w1))"

section \<open>The completion aggregator (lib/database)\<close>

definition mark_ready :: "timestamp \<Rightarrow> uuid \<Rightarrow> world \<Rightarrow> unit \<times> world" where
  "mark_ready now orderId w =
     ((), w\<lparr>orders :=
        update_where (\<lambda>ord. order_id ord = orderId)
          (\<lambda>ord. ord\<lparr>order_status := Ready, updated_at := now\<rparr>)
          (orders w)\<rparr>)"

definition checkOrderCompletion :: "timestamp \<Rightarrow> uuid \<Rightarrow> world \<Rightarrow> world" where
  "checkOrderCompletion now orderId w0 =
     (case store_call (select_order_items orderId) w0 of
        (Error, w1) \<Rightarrow> w1
      | (Data items, w1) \<Rightarrow>
          if list_all (\<lambda>item. item_status item = ''completed'') items
          then snd (store_call (mark_ready now orderId) w1)
          else w1)"

section \<open>The kitchen page's own completion button (pages/KitchenInterface)\<close>

text \<open>
  \<open>markItemComplete\<close> filters on the item's id alone. The \<open>loadKitchenOrders\<close> that
  follows it only reads.
\<close>

definition complete_item :: "timestamp \<Rightarrow> uuid \<Rightarrow> world \<Rightarrow> unit \<times> world" where
  "complete_item now itemId w =
     ((), w\<lparr>order_items :=
        update_where (\<lambda>i. item_id i = itemId)
          (\<lambda>i. i\<lparr>item_status := ''completed'', completed_at := Some now\<rparr>)
          (order_items w)\<rparr>)"

definition markItemComplete :: "timestamp \<Rightarrow> uuid \<Rightarrow> world \<Rightarrow> world" where
  "markItemComplete now itemId w0 = snd (store_call (complete_item now itemId) w0)"

section \<open>Sessions keyed by token (lib/supabase, dashboard staff page)\<close>

text \<open>
  \<open>createSession\<close> and \<open>endSession\<close> throw the store's error themselves
  (\<open>if (error) throw error\<close>): such a call either returns or throws to its caller.
\<close>

datatype 'a completion = Return 'a | Throw

fun digit_char :: "nat \<Rightarrow> char" where
  "digit_char n = (''0123456789'' ! (n mod 10))"

fun string_of_nat :: "nat \<Rightarrow> string" where
  "string_of_nat n = (if n < 10 then [digit_char n] else string_of_nat (n div 10) @ [digit_char n])"

text \<open>
  \<open>.insert(row).select().single()\<close> on \<open>active_sessions\<close>. Under the unique index on
  \<open>(user_id, restaurant_id)\<close> (parameter \<open>uq\<close>, as for the upsert) the store refuses a
  second row for a pair; columns the statement does not name are left unset.
\<close>

definition insert_session :: "bool \<Rightarrow> session \<Rightarrow> world \<Rightarrow> session option \<times> world" where
  "insert_session uq row w =
     (if uq \<and> list_ex (\<lambda>s. user_id s = user_id row \<and> restaurant_id s = restaurant_id row)
                 (active_sessions w)
      then (None, w)
      else (Some row, w\<lparr>active_sessions := active_sessions w @ [row]\<rparr>))"

definition createSession ::
  "bool \<Rightarrow> uuid \<Rightarrow> timestamp \<Rightarrow> uuid \<Rightarrow> uuid \<Rightarrow> string \<Rightarrow> string option \<Rightarrow> world
     \<Rightarrow> session completion \<times> world" where
  "createSession uq fresh now userId restaurantId userName stationId w0 =
     (let sessionToken = ''session_'' @ userId @ ''_'' @ string_of_nat now in
      case store_call
             (insert_session uq
                \<lparr>session_id = fresh, user_id = userId, restaurant_id = restaurantId,
                 session_type = None, station = None, station_id = stationId,
                 session_token = Some sessionToken, user_name = Some userName,
                 session_status = ''active'', last_heartbeat = None, created_at = None\<rparr>) w0 of
        (Data (Some row), w1) \<Rightarrow> (Return row, w1)
      | (_, w1) \<Rightarrow> (Throw, w1))"

definition release_session_orders :: "uuid \<Rightarrow> world \<Rightarrow> unit \<times> world" where
  "release_session_orders sessionId w =
     ((), w\<lparr>orders :=
        update_where (\<lambda>ord. claimed_by ord = Some sessionId)
          (\<lambda>ord. ord\<lparr>claimed_by := None, order_claimed_at := None, order_status := Pending\<rparr>)
          (orders w)\<rparr>)"

definition delete_session :: "uuid \<Rightarrow> world \<Rightarrow> unit \<times> world" where
  "delete_session sessionId w =
     ((), w\<lparr>active_sessions := delete_where (\<lambda>s. session_id s = sessionId) (active_sessions w)\<rparr>)"

text \<open>
  \<open>endSession\<close> awaits the release without looking at its \<open>error\<close> field, then deletes the
  session row and throws when the deletion reports an error.
\<close>

definition endSession :: "uuid \<Rightarrow> world \<Rightarrow> unit completion \<times> world" where
  "endSession sessionId w0 =
     (case store_call (release_session_orders sessionId) w0 of
        (_, w1) \<Rightarrow>
          (case store_call (delete_session sessionId) w1 of
             (Data _, w2) \<Rightarrow> (Return (), w2)
           | (_, w2) \<Rightarrow> (Throw, w2)))"

definition deactivate_session :: "uuid \<Rightarrow> world \<Rightarrow> unit \<times> world" where
  "deactivate_session sessionId w =
     ((), w\<lparr>active_sessions :=
        update_where (\<lambda>s. session_id s = sessionId) (\<lambda>s. s\<lparr>session_status := ''inactive''\<rparr>)
          (active_sessions w)\<rparr>)"

text \<open>
  \<open>terminateSession\<close> throws the store's error inside its own \<open>try\<close> and catches it; the
  \<open>loadStaffData\<close> after a successful update only reads.
\<close>

definition terminateSession :: "uuid \<Rightarrow> world \<Rightarrow> world" where
  "terminateSession sessionId w0 = snd (store_call (deactivate_session sessionId) w0)"

section \<open>Claim attempts of several workers, interleaved at the store round trips\<close>

text \<open>
  Each \<open>await\<close> in \<open>claimOrder\<close> is a point where another worker's statement can reach
  the store first. \<open>claim_step\<close> runs \<open>claimOrder\<close> from one such point to the next;
  what the attempt carries across is which statement comes next (the fetched rows are
  used up by the check before the next \<open>await\<close>). The session upsert at the end touches
  neither orders nor items and is taken as one step.
\<close>

datatype claim_pc = AtFetch | AtClaim | AtOrder | AtSession | Finished bool

definition claim_step ::
  "bool \<Rightarrow> uuid \<Rightarrow> timestamp \<Rightarrow> uuid \<Rightarrow> uuid \<Rightarrow> string option \<Rightarrow> claim_pc \<Rightarrow> world
     \<Rightarrow> claim_pc \<times> world" where
  "claim_step uq fresh now orderId userId st pc w =
     (case pc of
        AtFetch \<Rightarrow>
          (case store_call (select_order_items orderId) w of
             (Error, w1) \<Rightarrow> (Finished False, w1)
           | (Data orderItems, w1) \<Rightarrow>
               if orderItems = [] then (Finished False, w1)
               else if alreadyClaimed orderItems userId then (Finished False, w1)
               else (AtClaim, w1))
      | AtClaim \<Rightarrow>
          (case store_call (claim_items now orderId userId) w of
             (Error, w2) \<Rightarrow> (Finished False, w2)
           | (Data _, w2) \<Rightarrow> (AtOrder, w2))
      | AtOrder \<Rightarrow>
          (case store_call (start_preparing now orderId) w of
             (_, w3) \<Rightarrow> (AtSession, w3))
      | AtSession \<Rightarrow>
          (Finished True,
           if truthy st then createKitchenSession uq fresh now userId (the st) w else w)
      | Finished b \<Rightarrow> (Finished b, w))"

text \<open>One attempt run alone, from its first statement to its return.\<close>

definition claim_run ::
  "bool \<Rightarrow> uuid \<Rightarrow> timestamp \<Rightarrow> uuid \<Rightarrow> uuid \<Rightarrow> string option \<Rightarrow> world \<Rightarrow> claim_pc \<times> world" where
  "claim_run uq fresh now orderId userId st w =
     (case claim_step uq fresh now orderId userId st AtFetch w of (pc1, w1) \<Rightarrow>
      case claim_step uq fresh now orderId userId st pc1 w1 of (pc2, w2) \<Rightarrow>
      case claim_step uq fresh now orderId userId st pc2 w2 of (pc3, w3) \<Rightarrow>
      claim_step uq fresh now orderId userId st pc3 w3)"

text \<open>
  A schedule names, step by step, the attempt that moves next. Every attempt is for the
  same order; attempt \<open>k\<close> belongs to the worker \<open>fst (ts ! k)\<close>. The attempts pass no
  station, so none of them reaches \<open>createKitchenSession\<close>.
\<close>

fun interleave ::
  "timestamp \<Rightarrow> uuid \<Rightarrow> nat list \<Rightarrow> (uuid \<times> claim_pc) list \<Rightarrow> world
     \<Rightarrow> (uuid \<times> claim_pc) list \<times> world" where
  "interleave now orderId [] ts w = (ts, w)"
| "interleave now orderId (k # sched) ts w =
     (if k < length ts
      then (case claim_step False [] now orderId (fst (ts ! k)) None (snd (ts ! k)) w of
              (pc', w') \<Rightarrow> interleave now orderId sched (ts[k := (fst (ts ! k), pc')]) w')
      else interleave now orderId sched ts w)"

section \<open>Scenarios\<close>

definition unclaimed :: "uuid \<Rightarrow> uuid \<Rightarrow> order_item" where
  "unclaimed iid oid =
     \<lparr>item_id = iid, item_order_id = oid, item_status = ''pending'',
      claimed_by_user_id = None, item_claimed_at = None, completed_at = None\<rparr>"

definition held :: "uuid \<Rightarrow> uuid \<Rightarrow> string \<Rightarrow> uuid \<Rightarrow> order_item" where
  "held iid oid stat uid =
     \<lparr>item_id = iid, item_order_id = oid, item_status = stat,
      claimed_by_user_id = Some uid, item_claimed_at = Some 1, completed_at = None\<rparr>"

definition order_row :: "uuid \<Rightarrow> OrderStatus \<Rightarrow> order" where
  "order_row oid stat =
     \<lparr>order_id = oid, order_status = stat, claimed_by = None, order_claimed_at = None,
      updated_at = 0\<rparr>"

definition kitchen :: "order_item list \<Rightarrow> order list \<Rightarrow> world" where
  "kitchen its ords =
     \<lparr>order_items = its, orders = ords,
      users = [\<lparr>u_id = ''W1'', u_restaurant_id = Some ''R1''\<rparr>,
               \<lparr>u_id = ''W2'', u_restaurant_id = Some ''R1''\<rparr>],
      active_sessions = [], pending_outcomes = []\<rparr>"

definition session_row :: "uuid \<Rightarrow> uuid \<Rightarrow> uuid \<Rightarrow> session" where
  "session_row sid uid rid =
     \<lparr>session_id = sid, user_id = uid, restaurant_id = rid, session_type = None,
      station = None, station_id = None, session_token = Some (''session_'' @ uid @ ''_1''),
      user_name = None, session_status = ''active'', last_heartbeat = None,
      created_at = None\<rparr>"

section \<open>Facts about the store\<close>

lemma advance_tables [simp]:
  "order_items (advance w) = order_items w"
  "orders (advance w) = orders w"
  "users (advance w) = users w"
  "active_sessions (advance w) = active_sessions w"
  by (simp_all add: advance_def)

lemma idle_next [simp]: "pending_outcomes w = [] \<Longrightarrow> next_outcome w = Ok"
  by (simp add: next_outcome_def)

lemma idle_advance [simp]: "pending_outcomes w = [] \<Longrightarrow> advance w = w"
  by (simp add: advance_def)

lemma store_call_idle:
  "pending_outcomes w = [] \<Longrightarrow> store_call stmt w = (Data (fst (stmt w)), snd (stmt w))"
  by (simp add: store_call_def split: prod.splits)

lemma store_call_cases:
  obtains (ok) "store_call stmt w = (Data (fst (stmt (advance w))), snd (stmt (advance w)))"
    | (err) "store_call stmt w = (Error, advance w)"
  by (cases "next_outcome w") (auto simp: store_call_def split: prod.splits)

lemma update_where_length [simp]: "length (update_where p f rows) = length rows"
  by (simp add: update_where_def)

lemma update_where_nth:
  "k < length rows \<Longrightarrow> update_where p f rows ! k = (if p (rows ! k) then f (rows ! k) else rows ! k)"
  by (simp add: update_where_def)

lemma update_where_none: "\<forall>r\<in>set rows. \<not> p r \<Longrightarrow> update_where p f rows = rows"
  by (simp add: update_where_def map_idI)

lemma createKitchenSession_tables [simp]:
  "order_items (createKitchenSession uq fresh now userId st w) = order_items w"
  "orders (createKitchenSession uq fresh now userId st w) = orders w"
  by (auto simp: createKitchenSession_def store_call_def select_user_single_def upsert_session_def
      split: outcome.splits list.splits option.splits prod.splits)

lemma alreadyClaimed_iff:
  "alreadyClaimed its userId \<longleftrightarrow> (\<exists>i\<in>set its. \<exists>u. claimed_by_user_id i = Some u \<and> u \<noteq> [] \<and> u \<noteq> userId)"
  by (auto simp: alreadyClaimed_def list_ex_iff truthy_def split: option.splits)

lemma claimOrder_conflict:
  assumes "alreadyClaimed (filter (\<lambda>i. item_order_id i = orderId) (order_items w)) userId"
  shows "fst (claimOrder uq fresh now orderId userId st w) = False"
    and "order_items (snd (claimOrder uq fresh now orderId userId st w)) = order_items w"
    and "orders (snd (claimOrder uq fresh now orderId userId st w)) = orders w"
  using assms
  by (cases rule: store_call_cases[of "select_order_items orderId" w];
      simp add: claimOrder_def select_order_items_def)+

lemma claimOrder_idle:
  assumes "pending_outcomes w = []"
    and "filter (\<lambda>i. item_order_id i = orderId) (order_items w) \<noteq> []"
    and "\<not> alreadyClaimed (filter (\<lambda>i. item_order_id i = orderId) (order_items w)) userId"
  shows "fst (claimOrder uq fresh now orderId userId st w) = True"
    and "order_items (snd (claimOrder uq fresh now orderId userId st w))
         = update_where (\<lambda>i. item_order_id i = orderId \<and> claimed_by_user_id i = None)
            (\<lambda>i. i\<lparr>claimed_by_user_id := Some userId, item_claimed_at := Some now,
                  item_status := ''claimed''\<rparr>) (order_items w)"
  using assms
  by (simp_all add: claimOrder_def store_call_idle select_order_items_def claim_items_def
      start_preparing_def)

lemma next_outcome_update [simp]:
  "next_outcome (w\<lparr>order_items := its\<rparr>) = next_outcome w"
  "next_outcome (w\<lparr>orders := ords\<rparr>) = next_outcome w"
  "next_outcome (w\<lparr>active_sessions := ss\<rparr>) = next_outcome w"
  by (simp_all add: next_outcome_def)

lemma advance_update [simp]:
  "advance (w\<lparr>order_items := its\<rparr>) = (advance w)\<lparr>order_items := its\<rparr>"
  "advance (w\<lparr>orders := ords\<rparr>) = (advance w)\<lparr>orders := ords\<rparr>"
  "advance (w\<lparr>active_sessions := ss\<rparr>) = (advance w)\<lparr>active_sessions := ss\<rparr>"
  by (simp_all add: advance_def)

lemma store_call_eq:
  "store_call stmt w =
     (case next_outcome w of
        Ok \<Rightarrow> (Data (fst (stmt (advance w))), snd (stmt (advance w)))
      | Err \<Rightarrow> (Error, advance w))"
  by (simp add: store_call_def split: outcome.splits prod.splits)

lemma update_where_map_eq:
  "update_where p f rows = map (\<lambda>r. if p r then f r else r) rows"
  by (simp add: update_where_def)


lemma markItemComplete_items:
  "order_items (markItemComplete now itemId w)
   = (if next_outcome w = Ok
      then update_where (\<lambda>i. item_id i = itemId)
             (\<lambda>i. i\<lparr>item_status := ''completed'', completed_at := Some now\<rparr>) (order_items w)
      else order_items w)"
  by (cases "next_outcome w") (simp_all add: markItemComplete_def store_call_def complete_item_def)

lemma endSession_items [simp]:
  "order_items (snd (endSession sessionId w)) = order_items w"
  by (cases "next_outcome w"; cases "next_outcome (advance w)";
      simp add: endSession_def store_call_eq release_session_orders_def delete_session_def)

lemma terminateSession_tables [simp]:
  "order_items (terminateSession sessionId w) = order_items w"
  "orders (terminateSession sessionId w) = orders w"
  by (cases "next_outcome w";
      simp add: terminateSession_def store_call_def deactivate_session_def)+


text \<open>The definitions a concrete scenario is evaluated with.\<close>

lemmas evals = claimOrder_def releaseOrder_def markItemCompleted_def checkOrderCompletion_def
  markItemComplete_def endSession_def terminateSession_def createSession_def
  createKitchenSession_def store_call_def next_outcome_def advance_def select_order_items_def
  select_claimed_items_def select_user_single_def alreadyClaimed_def truthy_def claim_items_def
  start_preparing_def release_items_def reset_order_def complete_owned_item_def complete_item_def
  mark_ready_def release_session_orders_def delete_session_def deactivate_session_def
  insert_session_def upsert_session_def update_where_def delete_where_def
  kitchen_def held_def unclaimed_def order_row_def session_row_def Let_def

section \<open>Claiming an order\<close>

lemma claimOrder_items_cases:
  "order_items (snd (claimOrder uq fresh now orderId userId st w)) = order_items w
   \<or> order_items (snd (claimOrder uq fresh now orderId userId st w))
     = update_where (\<lambda>i. item_order_id i = orderId \<and> claimed_by_user_id i = None)
         (\<lambda>i. i\<lparr>claimed_by_user_id := Some userId, item_claimed_at := Some now,
                 item_status := ''claimed''\<rparr>) (order_items w)"
  by (cases "next_outcome w"; cases "next_outcome (advance w)";
      cases "next_outcome (advance (advance w))";
      simp add: claimOrder_def store_call_eq select_order_items_def claim_items_def
        start_preparing_def)


text \<open>
  C1. For every call \<open>claimOrder(orderId, workerId)\<close>: if some item of the order has a
  claim-owner (a non-empty id) different from \<open>workerId\<close>, the call returns false and
  leaves every order item as it was, whatever the store answers. Under the precondition
  of a claim (the order has at least one item), if none of its items is claimed by a
  different worker and the store reports no error, the call returns true and sets
  claim-owner = \<open>workerId\<close>, claimed-at = now and status = 'claimed' on exactly those
  items of the order whose claim-owner was unset; every other item is left as it was.
\<close>

theorem claimOrder_conflict_or_claim:
  "((\<exists>i\<in>set (order_items w). item_order_id i = orderId \<and>
        (\<exists>u. claimed_by_user_id i = Some u \<and> u \<noteq> [] \<and> u \<noteq> userId))
     \<longrightarrow> fst (claimOrder uq fresh now orderId userId st w) = False
         \<and> order_items (snd (claimOrder uq fresh now orderId userId st w)) = order_items w)
   \<and> (pending_outcomes w = []
       \<and> (\<exists>i\<in>set (order_items w). item_order_id i = orderId)
       \<and> (\<forall>i\<in>set (order_items w). item_order_id i = orderId \<longrightarrow>
             claimed_by_user_id i = None \<or> claimed_by_user_id i = Some userId)
     \<longrightarrow> fst (claimOrder uq fresh now orderId userId st w) = True
         \<and> length (order_items (snd (claimOrder uq fresh now orderId userId st w)))
             = length (order_items w)
         \<and> (\<forall>k<length (order_items w).
               order_items (snd (claimOrder uq fresh now orderId userId st w)) ! k
               = (if item_order_id (order_items w ! k) = orderId
                     \<and> claimed_by_user_id (order_items w ! k) = None
                  then (order_items w ! k)\<lparr>claimed_by_user_id := Some userId,
                         item_claimed_at := Some now, item_status := ''claimed''\<rparr>
                  else order_items w ! k)))"
proof (intro conjI impI)
  assume "\<exists>i\<in>set (order_items w). item_order_id i = orderId \<and>
        (\<exists>u. claimed_by_user_id i = Some u \<and> u \<noteq> [] \<and> u \<noteq> userId)"
  then have c: "alreadyClaimed (filter (\<lambda>i. item_order_id i = orderId) (order_items w)) userId"
    by (auto simp: alreadyClaimed_iff)
  show "fst (claimOrder uq fresh now orderId userId st w) = False"
    using claimOrder_conflict(1)[OF c] .
  show "order_items (snd (claimOrder uq fresh now orderId userId st w)) = order_items w"
    using claimOrder_conflict(2)[OF c] .
next
  assume h: "pending_outcomes w = []
       \<and> (\<exists>i\<in>set (order_items w). item_order_id i = orderId)
       \<and> (\<forall>i\<in>set (order_items w). item_order_id i = orderId \<longrightarrow>
             claimed_by_user_id i = None \<or> claimed_by_user_id i = Some userId)"
  have ne: "filter (\<lambda>i. item_order_id i = orderId) (order_items w) \<noteq> []"
    using h by (auto simp: filter_empty_conv)
  have nc: "\<not> alreadyClaimed (filter (\<lambda>i. item_order_id i = orderId) (order_items w)) userId"
    using h by (auto simp: alreadyClaimed_iff)
  note r = claimOrder_idle[OF conjunct1[OF h] ne nc]
  show "fst (claimOrder uq fresh now orderId userId st w) = True" using r(1) .
  show "length (order_items (snd (claimOrder uq fresh now orderId userId st w)))
             = length (order_items w)"
    by (simp add: r(2))
  show "\<forall>k<length (order_items w).
               order_items (snd (claimOrder uq fresh now orderId userId st w)) ! k
               = (if item_order_id (order_items w ! k) = orderId
                     \<and> claimed_by_user_id (order_items w ! k) = None
                  then (order_items w ! k)\<lparr>claimed_by_user_id := Some userId,
                         item_claimed_at := Some now, item_status := ''claimed''\<rparr>
                  else order_items w ! k)"
    by (simp add: r(2) update_where_nth)
qed

theorem claimOrder_conflict_or_claim_witness:
  "fst (claimOrder False [] 5 ''O1'' ''W2'' None
          (kitchen [held ''A'' ''O1'' ''claimed'' ''W1'', held ''B'' ''O1'' ''claimed'' ''W1'']
             [order_row ''O1'' Preparing])) = False
   \<and> order_items (snd (claimOrder False [] 5 ''O1'' ''W2'' None
          (kitchen [held ''A'' ''O1'' ''claimed'' ''W1'', held ''B'' ''O1'' ''claimed'' ''W1'']
             [order_row ''O1'' Preparing])))
      = [held ''A'' ''O1'' ''claimed'' ''W1'', held ''B'' ''O1'' ''claimed'' ''W1'']
   \<and> fst (claimOrder False [] 5 ''O1'' ''W1'' None
          (kitchen [held ''A'' ''O1'' ''claimed'' ''W1'', unclaimed ''B'' ''O1'']
             [order_row ''O1'' Preparing])) = True
   \<and> order_items (snd (claimOrder False [] 5 ''O1'' ''W1'' None
          (kitchen [held ''A'' ''O1'' ''claimed'' ''W1'', unclaimed ''B'' ''O1'']
             [order_row ''O1'' Preparing])))
      = [held ''A'' ''O1'' ''claimed'' ''W1'',
         (unclaimed ''B'' ''O1'')\<lparr>claimed_by_user_id := Some ''W1'', item_claimed_at := Some 5,
            item_status := ''claimed''\<rparr>]"
  using claimOrder_conflict_or_claim[of
      "kitchen [held ''A'' ''O1'' ''claimed'' ''W1'', held ''B'' ''O1'' ''claimed'' ''W1'']
             [order_row ''O1'' Preparing]" "''O1''" "''W2''" False "[]" 5 None]
    claimOrder_conflict_or_claim[of
      "kitchen [held ''A'' ''O1'' ''claimed'' ''W1'', unclaimed ''B'' ''O1'']
             [order_row ''O1'' Preparing]" "''O1''" "''W1''" False "[]" 5 None]
  by (simp add: evals)

text \<open>
  Outside that precondition, for an order id without items, the guard before the check
  answers false (not found) and nothing is claimed.
\<close>

lemma claimOrder_no_items_not_found:
  "order_items (kitchen [] [order_row ''O1'' Pending]) = []
   \<and> fst (claimOrder False [] 5 ''O1'' ''W1'' None (kitchen [] [order_row ''O1'' Pending])) = False"
  by (simp add: evals)

section \<open>Claiming again\<close>

text \<open>
  C10. \<open>claimOrder\<close> is idempotent for the current owner: for every order (with at least
  one item, the precondition of a claim) whose items each either have no claim-owner or
  are already claimed by \<open>workerId\<close>, a call \<open>claimOrder(orderId, workerId)\<close> returns true
  when the store reports no error, and every item already owned by \<open>workerId\<close> is left
  exactly as it was (claim-owner, claimed-at and status included).
\<close>

theorem claimOrder_owner_again:
  "pending_outcomes w = []
     \<and> (\<exists>i\<in>set (order_items w). item_order_id i = orderId)
     \<and> (\<forall>i\<in>set (order_items w). item_order_id i = orderId \<longrightarrow>
           claimed_by_user_id i = None \<or> claimed_by_user_id i = Some userId)
   \<longrightarrow> fst (claimOrder uq fresh now orderId userId st w) = True
       \<and> (\<forall>k<length (order_items w).
             claimed_by_user_id (order_items w ! k) = Some userId \<longrightarrow>
             order_items (snd (claimOrder uq fresh now orderId userId st w)) ! k
             = order_items w ! k)"
proof (intro impI)
  assume h: "pending_outcomes w = []
     \<and> (\<exists>i\<in>set (order_items w). item_order_id i = orderId)
     \<and> (\<forall>i\<in>set (order_items w). item_order_id i = orderId \<longrightarrow>
           claimed_by_user_id i = None \<or> claimed_by_user_id i = Some userId)"
  have ne: "filter (\<lambda>i. item_order_id i = orderId) (order_items w) \<noteq> []"
    using h by (auto simp: filter_empty_conv)
  have nc: "\<not> alreadyClaimed (filter (\<lambda>i. item_order_id i = orderId) (order_items w)) userId"
    using h by (auto simp: alreadyClaimed_iff)
  note r = claimOrder_idle[OF conjunct1[OF h] ne nc]
  show "fst (claimOrder uq fresh now orderId userId st w) = True
       \<and> (\<forall>k<length (order_items w).
             claimed_by_user_id (order_items w ! k) = Some userId \<longrightarrow>
             order_items (snd (claimOrder uq fresh now orderId userId st w)) ! k
             = order_items w ! k)"
    by (simp add: r update_where_nth)
qed

theorem claimOrder_owner_again_witness:
  "claimOrder False [] 9 ''O1'' ''W1'' None
      (kitchen [held ''A'' ''O1'' ''claimed'' ''W1'', held ''B'' ''O1'' ''completed'' ''W1'']
         [order_row ''O1'' Preparing])
   = (True, kitchen [held ''A'' ''O1'' ''claimed'' ''W1'', held ''B'' ''O1'' ''completed'' ''W1'']
         [order_row ''O1'' Preparing])"
  using claimOrder_owner_again[of
      "kitchen [held ''A'' ''O1'' ''claimed'' ''W1'', held ''B'' ''O1'' ''completed'' ''W1'']
         [order_row ''O1'' Preparing]" "''O1''" "''W1''" False "[]" 9 None]
  by (simp add: evals)
section \<open>Racing claims\<close>

text \<open>Run without interruption, the steps are \<open>claimOrder\<close>.\<close>

lemma claim_run_claimOrder:
  "claim_run uq fresh now orderId userId st w
   = (Finished (fst (claimOrder uq fresh now orderId userId st w)),
      snd (claimOrder uq fresh now orderId userId st w))"
proof (cases rule: store_call_cases[of "select_order_items orderId" w])
  case ok
  let ?w1 = "snd (select_order_items orderId (advance w))"
  show ?thesis
  proof (cases rule: store_call_cases[of "claim_items now orderId userId" ?w1])
    case ok2: ok
    let ?w2 = "snd (claim_items now orderId userId (advance ?w1))"
    show ?thesis
      by (cases rule: store_call_cases[of "start_preparing now orderId" ?w2])
         (simp_all add: claim_run_def claim_step_def claimOrder_def ok ok2)
  qed (simp_all add: claim_run_def claim_step_def claimOrder_def ok)
qed (simp_all add: claim_run_def claim_step_def claimOrder_def)

text \<open>
  Attempts that do not overlap exclude each other: once W1 has claimed an order none of
  whose items was claimed, the attempt of any other worker is refused and changes no
  item.
\<close>

lemma claimOrder_second_worker_refused:
  assumes idle: "pending_outcomes w = []"
    and some: "\<exists>i\<in>set (order_items w). item_order_id i = orderId"
    and free: "\<forall>i\<in>set (order_items w). item_order_id i = orderId \<longrightarrow> claimed_by_user_id i = None"
    and ids: "w1 \<noteq> []" "w2 \<noteq> w1"
  shows "fst (claimOrder uq fresh now orderId w1 st w) = True"
    and "fst (claimOrder uq' fresh' now' orderId w2 st'
               (snd (claimOrder uq fresh now orderId w1 st w))) = False"
    and "order_items (snd (claimOrder uq' fresh' now' orderId w2 st'
               (snd (claimOrder uq fresh now orderId w1 st w))))
         = order_items (snd (claimOrder uq fresh now orderId w1 st w))"
proof -
  let ?c1 = "claimOrder uq fresh now orderId w1 st w"
  have ne: "filter (\<lambda>i. item_order_id i = orderId) (order_items w) \<noteq> []"
    using some by (auto simp: filter_empty_conv)
  have nc: "\<not> alreadyClaimed (filter (\<lambda>i. item_order_id i = orderId) (order_items w)) w1"
    using free by (auto simp: alreadyClaimed_iff)
  note r = claimOrder_idle[OF idle ne nc, of uq fresh now st]
  show "fst ?c1 = True" by (rule r(1))
  obtain i where i: "i \<in> set (order_items w)" "item_order_id i = orderId"
    using some by blast
  then have "claimed_by_user_id i = None"
    using free by blast
  then have "i\<lparr>claimed_by_user_id := Some w1, item_claimed_at := Some now,
               item_status := ''claimed''\<rparr> \<in> set (order_items (snd ?c1))"
    using i by (auto simp: r(2) update_where_def image_iff intro!: bexI[of _ i])
  then have "alreadyClaimed (filter (\<lambda>i. item_order_id i = orderId) (order_items (snd ?c1))) w2"
    unfolding alreadyClaimed_iff using i(2) ids
    by (intro bexI[of _ "i\<lparr>claimed_by_user_id := Some w1, item_claimed_at := Some now,
               item_status := ''claimed''\<rparr>"]) auto
  then show "fst (claimOrder uq' fresh' now' orderId w2 st' (snd ?c1)) = False"
    and "order_items (snd (claimOrder uq' fresh' now' orderId w2 st' (snd ?c1)))
         = order_items (snd ?c1)"
    by (rule claimOrder_conflict)+
qed

lemmas step_evals = claim_step_def evals

text \<open>
  C2. Among concurrent \<open>claimOrder\<close> attempts by distinct workers on an order with at
  least one item, exactly one should return true and a loser should have no effect. The
  code fetches, checks and only then updates, in separate round trips: when W1 and W2
  both fetch before either updates, both pass the check, W1's update takes both items,
  W2's update matches no row and reports no error, and both attempts return true.
\<close>

theorem claimOrder_race_both_succeed:
  "interleave 5 ''O1'' [0, 1, 0, 1, 0, 1, 0, 1] [(''W1'', AtFetch), (''W2'', AtFetch)]
     (kitchen [unclaimed ''A'' ''O1'', unclaimed ''B'' ''O1''] [order_row ''O1'' Pending])
   = ([(''W1'', Finished True), (''W2'', Finished True)],
      kitchen [(unclaimed ''A'' ''O1'')\<lparr>claimed_by_user_id := Some ''W1'',
                 item_claimed_at := Some 5, item_status := ''claimed''\<rparr>,
               (unclaimed ''B'' ''O1'')\<lparr>claimed_by_user_id := Some ''W1'',
                 item_claimed_at := Some 5, item_status := ''claimed''\<rparr>]
              [(order_row ''O1'' Pending)\<lparr>order_status := Preparing, updated_at := 5\<rparr>])"
  by (simp add: step_evals)

text \<open>The same two attempts under a schedule that runs them one after the other.\<close>

lemma claimOrder_serial_one_winner:
  "fst (interleave 5 ''O1'' [0, 0, 0, 0, 1, 1, 1, 1] [(''W1'', AtFetch), (''W2'', AtFetch)]
     (kitchen [unclaimed ''A'' ''O1'', unclaimed ''B'' ''O1''] [order_row ''O1'' Pending]))
   = [(''W1'', Finished True), (''W2'', Finished False)]"
  by (simp add: step_evals)

section \<open>Completing an item\<close>

lemma markItemCompleted_tables:
  "orders (snd (markItemCompleted now itemId userId w)) = orders w"
  "order_items (snd (markItemCompleted now itemId userId w))
   = (if next_outcome w = Ok
      then update_where (\<lambda>i. item_id i = itemId \<and> claimed_by_user_id i = Some userId)
             (\<lambda>i. i\<lparr>item_status := ''completed'', completed_at := Some now\<rparr>) (order_items w)
      else order_items w)"
  "fst (markItemCompleted now itemId userId w) = (next_outcome w = Ok)"
  by (cases "next_outcome w";
      simp add: markItemCompleted_def store_call_def complete_owned_item_def)+

text \<open>
  C3 (amended). For every call \<open>markItemCompleted(itemId, workerId)\<close> where no item with
  that id has claim-owner \<open>workerId\<close>, no order item is mutated; the call nevertheless
  returns true whenever the store reports no error (there is no Unauthorized result).
  In every call, the only items \<open>markItemCompleted\<close> changes are items with id \<open>itemId\<close>
  whose claim-owner is \<open>workerId\<close>.
\<close>

theorem markItemCompleted_owner_only:
  "((\<forall>i\<in>set (order_items w). item_id i = itemId \<longrightarrow> claimed_by_user_id i \<noteq> Some userId)
      \<longrightarrow> order_items (snd (markItemCompleted now itemId userId w)) = order_items w
          \<and> fst (markItemCompleted now itemId userId w) = (next_outcome w = Ok))
   \<and> length (order_items (snd (markItemCompleted now itemId userId w))) = length (order_items w)
   \<and> (\<forall>k<length (order_items w).
         order_items (snd (markItemCompleted now itemId userId w)) ! k \<noteq> order_items w ! k
         \<longrightarrow> item_id (order_items w ! k) = itemId
             \<and> claimed_by_user_id (order_items w ! k) = Some userId)"
  by (auto simp: markItemCompleted_tables update_where_nth intro!: update_where_none)

theorem markItemCompleted_owner_only_witness:
  "order_items (snd (markItemCompleted 7 ''A'' ''W2''
       (kitchen [held ''A'' ''O1'' ''claimed'' ''W1''] [order_row ''O1'' Preparing])))
   = [held ''A'' ''O1'' ''claimed'' ''W1'']
   \<and> map item_status (order_items (snd (markItemCompleted 7 ''A'' ''W1''
       (kitchen [held ''A'' ''O1'' ''claimed'' ''W1''] [order_row ''O1'' Preparing]))))
     = [''completed'']"
  using markItemCompleted_owner_only[of
      "kitchen [held ''A'' ''O1'' ''claimed'' ''W1''] [order_row ''O1'' Preparing]"
      "''A''" "''W2''" 7]
  by (simp add: evals)

text \<open>
  C3 as stated fails: W2 completing an item that W1 holds gets true back, not false.
\<close>

theorem markItemCompleted_not_owner_counterexample:
  "fst (markItemCompleted 7 ''A'' ''W2''
       (kitchen [held ''A'' ''O1'' ''claimed'' ''W1''] [order_row ''O1'' Preparing])) = True"
  by (simp add: evals)

text \<open>
  The completion button of the kitchen page does not condition the update on the owner:
  whoever presses it completes the item.
\<close>

lemma markItemComplete_ignores_owner:
  "map item_status (order_items (markItemComplete 7 ''A''
       (kitchen [held ''A'' ''O1'' ''claimed'' ''W1''] [order_row ''O1'' Preparing])))
   = [''completed'']"
  by (simp add: evals)

section \<open>Deriving the order status from its items\<close>

lemma checkOrderCompletion_tables:
  "order_items (checkOrderCompletion now orderId w) = order_items w"
  "orders (checkOrderCompletion now orderId w)
   = (if next_outcome w = Ok \<and> next_outcome (advance w) = Ok
         \<and> (\<forall>i\<in>set (order_items w). item_order_id i = orderId \<longrightarrow> item_status i = ''completed'')
      then map (\<lambda>ord. if order_id ord = orderId
                       then ord\<lparr>order_status := Ready, updated_at := now\<rparr> else ord) (orders w)
      else orders w)"
  by (cases "next_outcome w"; cases "next_outcome (advance w)";
      auto simp: checkOrderCompletion_def store_call_def select_order_items_def mark_ready_def
        update_where_def list_all_iff)+

text \<open>
  C4 (amended). \<open>markItemCompleted\<close> itself never changes an order: the completion
  aggregator is a separate call. When \<open>checkOrderCompletion\<close> is run on the parent
  order after the completion and the store reports no error, the order's status becomes
  'ready' if every item of the order then has status 'completed', and no order changes
  while some item of the order is not yet completed.
\<close>

theorem markItemCompleted_then_aggregate:
  "orders (snd (markItemCompleted now itemId userId w)) = orders w
   \<and> (pending_outcomes w = [] \<longrightarrow>
        orders (checkOrderCompletion now' orderId (snd (markItemCompleted now itemId userId w)))
        = (if \<forall>i\<in>set (order_items (snd (markItemCompleted now itemId userId w))).
                 item_order_id i = orderId \<longrightarrow> item_status i = ''completed''
           then map (\<lambda>ord. if order_id ord = orderId
                            then ord\<lparr>order_status := Ready, updated_at := now'\<rparr> else ord)
                  (orders w)
           else orders w))"
proof (intro conjI impI)
  show "orders (snd (markItemCompleted now itemId userId w)) = orders w"
    by (rule markItemCompleted_tables)
next
  assume idle: "pending_outcomes w = []"
  let ?w' = "snd (markItemCompleted now itemId userId w)"
  have "pending_outcomes ?w' = []"
    using idle by (simp add: markItemCompleted_def store_call_idle complete_owned_item_def)
  then have "next_outcome ?w' = Ok" "next_outcome (advance ?w') = Ok"
    by simp_all
  then show "orders (checkOrderCompletion now' orderId ?w')
        = (if \<forall>i\<in>set (order_items ?w'). item_order_id i = orderId \<longrightarrow> item_status i = ''completed''
           then map (\<lambda>ord. if order_id ord = orderId
                            then ord\<lparr>order_status := Ready, updated_at := now'\<rparr> else ord)
                  (orders w)
           else orders w)"
    by (auto simp: checkOrderCompletion_tables markItemCompleted_tables(1))
qed

theorem markItemCompleted_then_aggregate_witness:
  "map order_status (orders (checkOrderCompletion 8 ''O1'' (snd (markItemCompleted 7 ''B'' ''W1''
       (kitchen [held ''A'' ''O1'' ''completed'' ''W1'', held ''B'' ''O1'' ''claimed'' ''W1'']
          [order_row ''O1'' Preparing]))))) = [Ready]
   \<and> map order_status (orders (checkOrderCompletion 8 ''O1'' (snd (markItemCompleted 7 ''A'' ''W1''
       (kitchen [held ''A'' ''O1'' ''claimed'' ''W1'', held ''B'' ''O1'' ''claimed'' ''W1'']
          [order_row ''O1'' Preparing]))))) = [Preparing]"
  using markItemCompleted_then_aggregate[of 7 "''B''" "''W1''"
      "kitchen [held ''A'' ''O1'' ''completed'' ''W1'', held ''B'' ''O1'' ''claimed'' ''W1'']
          [order_row ''O1'' Preparing]" 8 "''O1''"]
    markItemCompleted_then_aggregate[of 7 "''A''" "''W1''"
      "kitchen [held ''A'' ''O1'' ''claimed'' ''W1'', held ''B'' ''O1'' ''claimed'' ''W1'']
          [order_row ''O1'' Preparing]" 8 "''O1''"]
  by (simp add: evals)

text \<open>
  C4 as stated fails: W1 completes B, the last open item of O1; the call succeeds, every
  item of O1 is completed, and O1 is still 'preparing'.
\<close>

theorem markItemCompleted_last_item_counterexample:
  "fst (markItemCompleted 7 ''B'' ''W1''
       (kitchen [held ''A'' ''O1'' ''completed'' ''W1'', held ''B'' ''O1'' ''claimed'' ''W1'']
          [order_row ''O1'' Preparing])) = True
   \<and> map item_status (order_items (snd (markItemCompleted 7 ''B'' ''W1''
       (kitchen [held ''A'' ''O1'' ''completed'' ''W1'', held ''B'' ''O1'' ''claimed'' ''W1'']
          [order_row ''O1'' Preparing])))) = [''completed'', ''completed'']
   \<and> map order_status (orders (snd (markItemCompleted 7 ''B'' ''W1''
       (kitchen [held ''A'' ''O1'' ''completed'' ''W1'', held ''B'' ''O1'' ''claimed'' ''W1'']
          [order_row ''O1'' Preparing])))) = [Preparing]"
  by (simp add: evals)

text \<open>
  C5 (amended). \<open>checkOrderCompletion\<close> changes no item, and it sets the order's status
  to 'ready' if and only if every item of the order has status 'completed' (and the store
  answers both of its statements); in every other case the orders are left unchanged.
  The order's current status is not consulted.
\<close>

theorem checkOrderCompletion_ready_iff:
  "order_items (checkOrderCompletion now orderId w) = order_items w
   \<and> orders (checkOrderCompletion now orderId w)
     = (if (\<forall>i\<in>set (order_items w). item_order_id i = orderId \<longrightarrow> item_status i = ''completed'')
           \<and> next_outcome w = Ok \<and> next_outcome (advance w) = Ok
        then map (\<lambda>ord. if order_id ord = orderId
                         then ord\<lparr>order_status := Ready, updated_at := now\<rparr> else ord) (orders w)
        else orders w)"
  by (auto simp: checkOrderCompletion_tables)

theorem checkOrderCompletion_ready_iff_witness:
  "map order_status (orders (checkOrderCompletion 8 ''O1''
       (kitchen [held ''A'' ''O1'' ''completed'' ''W1'', held ''B'' ''O1'' ''completed'' ''W1'']
          [order_row ''O1'' Preparing, order_row ''O2'' Pending]))) = [Ready, Pending]
   \<and> map order_status (orders (checkOrderCompletion 8 ''O1''
       (kitchen [held ''A'' ''O1'' ''completed'' ''W1'', held ''B'' ''O1'' ''claimed'' ''W1'']
          [order_row ''O1'' Preparing, order_row ''O2'' Pending]))) = [Preparing, Pending]"
  using checkOrderCompletion_ready_iff[of 8 "''O1''"
      "kitchen [held ''A'' ''O1'' ''completed'' ''W1'', held ''B'' ''O1'' ''completed'' ''W1'']
          [order_row ''O1'' Preparing, order_row ''O2'' Pending]"]
    checkOrderCompletion_ready_iff[of 8 "''O1''"
      "kitchen [held ''A'' ''O1'' ''completed'' ''W1'', held ''B'' ''O1'' ''claimed'' ''W1'']
          [order_row ''O1'' Preparing, order_row ''O2'' Pending]"]
  by (simp add: evals)

text \<open>
  C5 as stated fails in its last part: a served order and a cancelled order whose items
  are all completed are set back to 'ready' by the aggregation.
\<close>

theorem checkOrderCompletion_served_counterexample:
  "map order_status (orders (checkOrderCompletion 8 ''O1''
       (kitchen [held ''A'' ''O1'' ''completed'' ''W1''] [order_row ''O1'' Served]))) = [Ready]
   \<and> map order_status (orders (checkOrderCompletion 8 ''O2''
       (kitchen [held ''C'' ''O2'' ''completed'' ''W1''] [order_row ''O2'' Cancelled]))) = [Ready]"
  by (simp add: evals)
section \<open>Releasing an order\<close>

lemma releaseOrder_items:
  "order_items (snd (releaseOrder now orderId userId w))
   = (if next_outcome w = Ok
      then update_where (\<lambda>i. item_order_id i = orderId \<and> claimed_by_user_id i = Some userId)
             (\<lambda>i. i\<lparr>claimed_by_user_id := None, item_claimed_at := None,
                     item_status := ''pending''\<rparr>) (order_items w)
      else order_items w)"
  by (cases "next_outcome w"; cases "next_outcome (advance w)";
      cases "next_outcome (advance (advance w))";
      simp add: releaseOrder_def store_call_eq release_items_def select_claimed_items_def
        reset_order_def)

lemma releaseOrder_idle:
  assumes "pending_outcomes w = []"
  shows "fst (releaseOrder now orderId userId w) = True"
    and "orders (snd (releaseOrder now orderId userId w))
         = (if filter (\<lambda>i. item_order_id i = orderId \<and> claimed_by_user_id i \<noteq> None)
                 (update_where
                    (\<lambda>i. item_order_id i = orderId \<and> claimed_by_user_id i = Some userId)
                    (\<lambda>i. i\<lparr>claimed_by_user_id := None, item_claimed_at := None,
                            item_status := ''pending''\<rparr>) (order_items w)) = []
            then map (\<lambda>ord. if order_id ord = orderId
                             then ord\<lparr>order_status := Pending, updated_at := now\<rparr> else ord)
                   (orders w)
            else orders w)"
proof -
  have n: "next_outcome w = Ok" "advance w = w"
    using assms by simp_all
  show "fst (releaseOrder now orderId userId w) = True"
    by (simp add: releaseOrder_def store_call_eq n release_items_def select_claimed_items_def
        reset_order_def)
  show "orders (snd (releaseOrder now orderId userId w))
         = (if filter (\<lambda>i. item_order_id i = orderId \<and> claimed_by_user_id i \<noteq> None)
                 (update_where
                    (\<lambda>i. item_order_id i = orderId \<and> claimed_by_user_id i = Some userId)
                    (\<lambda>i. i\<lparr>claimed_by_user_id := None, item_claimed_at := None,
                            item_status := ''pending''\<rparr>) (order_items w)) = []
            then map (\<lambda>ord. if order_id ord = orderId
                             then ord\<lparr>order_status := Pending, updated_at := now\<rparr> else ord)
                   (orders w)
            else orders w)"
    unfolding releaseOrder_def store_call_eq
    by (simp add: n release_items_def select_claimed_items_def reset_order_def
        update_where_map_eq[of "\<lambda>ord. order_id ord = orderId"] del: filter_empty_conv)
qed

text \<open>
  C7 (amended). For every call \<open>releaseOrder(orderId, workerId)\<close> where \<open>workerId\<close> holds
  no claim on any item of the order, every order item is identical before and after the
  call; when the store reports no error the call returns true, and the orders are
  unchanged if some item of the order is still claimed by anyone, while otherwise the
  order's status is set to 'pending' whatever it was.
\<close>

theorem releaseOrder_nothing_held:
  "(\<forall>i\<in>set (order_items w). item_order_id i = orderId \<longrightarrow> claimed_by_user_id i \<noteq> Some userId)
   \<longrightarrow> order_items (snd (releaseOrder now orderId userId w)) = order_items w
       \<and> (pending_outcomes w = [] \<longrightarrow>
            fst (releaseOrder now orderId userId w) = True
            \<and> orders (snd (releaseOrder now orderId userId w))
              = (if \<exists>i\<in>set (order_items w). item_order_id i = orderId \<and> claimed_by_user_id i \<noteq> None
                 then orders w
                 else map (\<lambda>ord. if order_id ord = orderId
                                  then ord\<lparr>order_status := Pending, updated_at := now\<rparr> else ord)
                        (orders w)))"
proof (intro impI conjI)
  assume h: "\<forall>i\<in>set (order_items w). item_order_id i = orderId \<longrightarrow> claimed_by_user_id i \<noteq> Some userId"
  then have same: "update_where (\<lambda>i. item_order_id i = orderId \<and> claimed_by_user_id i = Some userId)
         (\<lambda>i. i\<lparr>claimed_by_user_id := None, item_claimed_at := None, item_status := ''pending''\<rparr>)
         (order_items w) = order_items w"
    by (intro update_where_none) auto
  show "order_items (snd (releaseOrder now orderId userId w)) = order_items w"
    by (simp add: releaseOrder_items same)
  assume idle: "pending_outcomes w = []"
  show "fst (releaseOrder now orderId userId w) = True"
    by (rule releaseOrder_idle(1)[OF idle])
  show "orders (snd (releaseOrder now orderId userId w))
              = (if \<exists>i\<in>set (order_items w). item_order_id i = orderId \<and> claimed_by_user_id i \<noteq> None
                 then orders w
                 else map (\<lambda>ord. if order_id ord = orderId
                                  then ord\<lparr>order_status := Pending, updated_at := now\<rparr> else ord)
                        (orders w))"
    unfolding releaseOrder_idle(2)[OF idle] same
    by (auto simp: filter_empty_conv)
qed

theorem releaseOrder_nothing_held_witness:
  "releaseOrder 9 ''O1'' ''W2''
     (kitchen [held ''A'' ''O1'' ''claimed'' ''W1'', unclaimed ''B'' ''O1'']
        [order_row ''O1'' Preparing])
   = (True, kitchen [held ''A'' ''O1'' ''claimed'' ''W1'', unclaimed ''B'' ''O1'']
        [order_row ''O1'' Preparing])"
  using releaseOrder_nothing_held[of
      "kitchen [held ''A'' ''O1'' ''claimed'' ''W1'', unclaimed ''B'' ''O1'']
        [order_row ''O1'' Preparing]" "''O1''" "''W2''" 9]
  by (simp add: evals)

text \<open>
  C7 as stated fails: W2 holds nothing on the cancelled order O1, none of whose items is
  claimed; the release turns O1 from 'cancelled' to 'pending'.
\<close>

theorem releaseOrder_cancelled_counterexample:
  "map order_status (orders (snd (releaseOrder 9 ''O1'' ''W2''
     (kitchen [unclaimed ''A'' ''O1''] [order_row ''O1'' Cancelled])))) = [Pending]"
  by (simp add: evals)
section \<open>Leaving the completed status\<close>

text \<open>
  C6 (amended). An item with status 'completed' keeps that status under
  \<open>markItemCompleted\<close> and under the kitchen page's \<open>markItemComplete\<close>; it is left
  exactly as it is by \<open>endSession\<close> and \<open>terminateSession\<close>, by \<open>claimOrder\<close> as long as
  it has a claim-owner, and by \<open>releaseOrder(orderId, workerId)\<close> unless it belongs to
  \<open>orderId\<close> and its claim-owner is \<open>workerId\<close>. In that last case the release, once the
  store accepts it, sets the item back to 'pending' and unsets its owner.
\<close>

theorem completed_item_transitions:
  "k < length (order_items w) \<and> item_status (order_items w ! k) = ''completed'' \<longrightarrow>
     item_status (order_items (snd (markItemCompleted now itemId userId w)) ! k) = ''completed''
   \<and> item_status (order_items (markItemComplete now itemId w) ! k) = ''completed''
   \<and> order_items (snd (endSession sessionId w)) ! k = order_items w ! k
   \<and> order_items (terminateSession sessionId w) ! k = order_items w ! k
   \<and> (claimed_by_user_id (order_items w ! k) \<noteq> None \<longrightarrow>
        order_items (snd (claimOrder uq fresh now orderId userId st w)) ! k = order_items w ! k)
   \<and> (\<not> (item_order_id (order_items w ! k) = orderId
           \<and> claimed_by_user_id (order_items w ! k) = Some userId) \<longrightarrow>
        order_items (snd (releaseOrder now orderId userId w)) ! k = order_items w ! k)
   \<and> (item_order_id (order_items w ! k) = orderId
         \<and> claimed_by_user_id (order_items w ! k) = Some userId \<and> next_outcome w = Ok \<longrightarrow>
        item_status (order_items (snd (releaseOrder now orderId userId w)) ! k) = ''pending''
        \<and> claimed_by_user_id (order_items (snd (releaseOrder now orderId userId w)) ! k) = None)"
proof (intro impI, elim conjE)
  assume k: "k < length (order_items w)" and c: "item_status (order_items w ! k) = ''completed''"
  have 1: "item_status (order_items (snd (markItemCompleted now itemId userId w)) ! k) = ''completed''"
    using k c by (simp add: markItemCompleted_tables update_where_nth)
  have 2: "item_status (order_items (markItemComplete now itemId w) ! k) = ''completed''"
    using k c by (simp add: markItemComplete_items update_where_nth)
  have 3: "claimed_by_user_id (order_items w ! k) \<noteq> None \<longrightarrow>
        order_items (snd (claimOrder uq fresh now orderId userId st w)) ! k = order_items w ! k"
    using k claimOrder_items_cases[of uq fresh now orderId userId st w]
    by (auto simp: update_where_nth)
  have 4: "\<not> (item_order_id (order_items w ! k) = orderId
           \<and> claimed_by_user_id (order_items w ! k) = Some userId) \<longrightarrow>
        order_items (snd (releaseOrder now orderId userId w)) ! k = order_items w ! k"
    using k by (simp add: releaseOrder_items update_where_nth)
  have 5: "item_order_id (order_items w ! k) = orderId
         \<and> claimed_by_user_id (order_items w ! k) = Some userId \<and> next_outcome w = Ok \<longrightarrow>
        item_status (order_items (snd (releaseOrder now orderId userId w)) ! k) = ''pending''
        \<and> claimed_by_user_id (order_items (snd (releaseOrder now orderId userId w)) ! k) = None"
    using k by (simp add: releaseOrder_items update_where_nth)
  show "item_status (order_items (snd (markItemCompleted now itemId userId w)) ! k) = ''completed''
   \<and> item_status (order_items (markItemComplete now itemId w) ! k) = ''completed''
   \<and> order_items (snd (endSession sessionId w)) ! k = order_items w ! k
   \<and> order_items (terminateSession sessionId w) ! k = order_items w ! k
   \<and> (claimed_by_user_id (order_items w ! k) \<noteq> None \<longrightarrow>
        order_items (snd (claimOrder uq fresh now orderId userId st w)) ! k = order_items w ! k)
   \<and> (\<not> (item_order_id (order_items w ! k) = orderId
           \<and> claimed_by_user_id (order_items w ! k) = Some userId) \<longrightarrow>
        order_items (snd (releaseOrder now orderId userId w)) ! k = order_items w ! k)
   \<and> (item_order_id (order_items w ! k) = orderId
         \<and> claimed_by_user_id (order_items w ! k) = Some userId \<and> next_outcome w = Ok \<longrightarrow>
        item_status (order_items (snd (releaseOrder now orderId userId w)) ! k) = ''pending''
        \<and> claimed_by_user_id (order_items (snd (releaseOrder now orderId userId w)) ! k) = None)"
    using 1 2 3 4 5 by simp
qed

theorem completed_item_transitions_witness:
  "map item_status (order_items (snd (markItemCompleted 7 ''A'' ''W1''
      (kitchen [held ''A'' ''O1'' ''completed'' ''W1''] [order_row ''O1'' Preparing]))))
     = [''completed'']
   \<and> order_items (snd (claimOrder False [] 7 ''O1'' ''W1'' None
      (kitchen [held ''A'' ''O1'' ''completed'' ''W1''] [order_row ''O1'' Preparing])))
     = [held ''A'' ''O1'' ''completed'' ''W1'']
   \<and> order_items (snd (releaseOrder 7 ''O1'' ''W2''
      (kitchen [held ''A'' ''O1'' ''completed'' ''W1''] [order_row ''O1'' Preparing])))
     = [held ''A'' ''O1'' ''completed'' ''W1'']
   \<and> order_items (snd (endSession ''S1''
      (kitchen [held ''A'' ''O1'' ''completed'' ''W1''] [order_row ''O1'' Preparing])))
     = [held ''A'' ''O1'' ''completed'' ''W1'']"
  using completed_item_transitions[of 0
      "kitchen [held ''A'' ''O1'' ''completed'' ''W1''] [order_row ''O1'' Preparing]"
      7 "''A''" "''W1''" "''S1''" False "[]" "''O1''" None]
    completed_item_transitions[of 0
      "kitchen [held ''A'' ''O1'' ''completed'' ''W1''] [order_row ''O1'' Preparing]"
      7 "''A''" "''W2''" "''S1''" False "[]" "''O1''" None]
  by (simp add: evals)

text \<open>
  C6 as stated fails: W1 releasing O1 turns the item it completed back to 'pending', and
  a completed item that has no owner is turned to 'claimed' by the next claim.
\<close>

theorem releaseOrder_completed_counterexample:
  "map item_status (order_items (snd (releaseOrder 9 ''O1'' ''W1''
      (kitchen [held ''A'' ''O1'' ''completed'' ''W1''] [order_row ''O1'' Ready]))))
     = [''pending'']
   \<and> map item_status (order_items (snd (claimOrder False [] 9 ''O1'' ''W2'' None
      (kitchen [(unclaimed ''A'' ''O1'')\<lparr>item_status := ''completed''\<rparr>]
         [order_row ''O1'' Ready]))))
     = [''claimed'']"
  by (simp add: evals)

section \<open>Closing a session\<close>

lemma endSession_eq:
  "endSession sessionId w =
     (if next_outcome (advance w) = Ok then Return () else Throw,
      (advance (advance w))
        \<lparr>orders := if next_outcome w = Ok
                   then update_where (\<lambda>ord. claimed_by ord = Some sessionId)
                          (\<lambda>ord. ord\<lparr>claimed_by := None, order_claimed_at := None,
                                    order_status := Pending\<rparr>) (orders w)
                   else orders w,
         active_sessions := if next_outcome (advance w) = Ok
                   then delete_where (\<lambda>s. session_id s = sessionId) (active_sessions w)
                   else active_sessions w\<rparr>)"
  by (cases "next_outcome w"; cases "next_outcome (advance w)";
      simp add: endSession_def store_call_eq release_session_orders_def delete_session_def)

text \<open>
  C8 (amended). Closing a session with \<open>endSession(sessionId)\<close> changes no order item.
  It first releases every order claimed by that session (\<open>claimed_by\<close> and \<open>claimed_at\<close>
  unset, status back to 'pending') and then deletes the session row: when the store
  reports no error both have happened and the call returns; when the store accepts the
  release and refuses the deletion, the call throws with the orders released and the
  session row still in place.
\<close>

theorem endSession_release_then_close:
  "order_items (snd (endSession sessionId w)) = order_items w
   \<and> (pending_outcomes w = [] \<longrightarrow>
        fst (endSession sessionId w) = Return ()
        \<and> orders (snd (endSession sessionId w))
          = map (\<lambda>ord. if claimed_by ord = Some sessionId
                        then ord\<lparr>claimed_by := None, order_claimed_at := None,
                                 order_status := Pending\<rparr>
                        else ord) (orders w)
        \<and> active_sessions (snd (endSession sessionId w))
          = filter (\<lambda>s. session_id s \<noteq> sessionId) (active_sessions w))
   \<and> (next_outcome w = Ok \<and> next_outcome (advance w) = Err \<longrightarrow>
        fst (endSession sessionId w) = Throw
        \<and> orders (snd (endSession sessionId w))
          = map (\<lambda>ord. if claimed_by ord = Some sessionId
                        then ord\<lparr>claimed_by := None, order_claimed_at := None,
                                 order_status := Pending\<rparr>
                        else ord) (orders w)
        \<and> active_sessions (snd (endSession sessionId w)) = active_sessions w)"
  by (simp add: endSession_eq update_where_def delete_where_def)

theorem endSession_release_then_close_witness:
  "endSession ''S1''
     ((kitchen [held ''A'' ''O3'' ''claimed'' ''W1'']
         [(order_row ''O3'' Preparing)\<lparr>claimed_by := Some ''S1'', order_claimed_at := Some 2\<rparr>,
          (order_row ''O4'' Preparing)\<lparr>claimed_by := Some ''S2'', order_claimed_at := Some 3\<rparr>])
      \<lparr>active_sessions := [session_row ''S1'' ''W1'' ''R1'', session_row ''S2'' ''W2'' ''R1'']\<rparr>)
   = (Return (),
      (kitchen [held ''A'' ''O3'' ''claimed'' ''W1'']
         [order_row ''O3'' Pending,
          (order_row ''O4'' Preparing)\<lparr>claimed_by := Some ''S2'', order_claimed_at := Some 3\<rparr>])
      \<lparr>active_sessions := [session_row ''S2'' ''W2'' ''R1'']\<rparr>)
   \<and> endSession ''S1''
     ((kitchen [] [(order_row ''O3'' Preparing)\<lparr>claimed_by := Some ''S1''\<rparr>])
      \<lparr>active_sessions := [session_row ''S1'' ''W1'' ''R1''], pending_outcomes := [Ok, Err]\<rparr>)
   = (Throw,
      (kitchen [] [order_row ''O3'' Pending])
      \<lparr>active_sessions := [session_row ''S1'' ''W1'' ''R1'']\<rparr>)"
  using endSession_release_then_close[of "''S1''"
     "(kitchen [held ''A'' ''O3'' ''claimed'' ''W1'']
         [(order_row ''O3'' Preparing)\<lparr>claimed_by := Some ''S1'', order_claimed_at := Some 2\<rparr>,
          (order_row ''O4'' Preparing)\<lparr>claimed_by := Some ''S2'', order_claimed_at := Some 3\<rparr>])
      \<lparr>active_sessions := [session_row ''S1'' ''W1'' ''R1'', session_row ''S2'' ''W2'' ''R1'']\<rparr>"]
    endSession_release_then_close[of "''S1''"
     "(kitchen [] [(order_row ''O3'' Preparing)\<lparr>claimed_by := Some ''S1''\<rparr>])
      \<lparr>active_sessions := [session_row ''S1'' ''W1'' ''R1''], pending_outcomes := [Ok, Err]\<rparr>"]
  by (simp add: evals)

text \<open>
  C8 as stated fails: after \<open>endSession\<close> the session of W1 is gone and W1's item is
  still claimed by W1; and when the release reports an error the session is deleted all
  the same, with the order still claimed by it.
\<close>

theorem endSession_orphans_items_counterexample:
  "map claimed_by_user_id (order_items (snd (endSession ''S1''
     ((kitchen [held ''A'' ''O3'' ''claimed'' ''W1''] [order_row ''O3'' Preparing])
      \<lparr>active_sessions := [session_row ''S1'' ''W1'' ''R1'']\<rparr>)))) = [Some ''W1'']
   \<and> map item_status (order_items (snd (endSession ''S1''
     ((kitchen [held ''A'' ''O3'' ''claimed'' ''W1''] [order_row ''O3'' Preparing])
      \<lparr>active_sessions := [session_row ''S1'' ''W1'' ''R1'']\<rparr>)))) = [''claimed'']
   \<and> active_sessions (snd (endSession ''S1''
     ((kitchen [held ''A'' ''O3'' ''claimed'' ''W1''] [order_row ''O3'' Preparing])
      \<lparr>active_sessions := [session_row ''S1'' ''W1'' ''R1'']\<rparr>))) = []
   \<and> map claimed_by (orders (snd (endSession ''S1''
     ((kitchen [] [(order_row ''O3'' Preparing)\<lparr>claimed_by := Some ''S1''\<rparr>])
      \<lparr>active_sessions := [session_row ''S1'' ''W1'' ''R1''], pending_outcomes := [Err]\<rparr>))))
     = [Some ''S1'']
   \<and> active_sessions (snd (endSession ''S1''
     ((kitchen [] [(order_row ''O3'' Preparing)\<lparr>claimed_by := Some ''S1''\<rparr>])
      \<lparr>active_sessions := [session_row ''S1'' ''W1'' ''R1''], pending_outcomes := [Err]\<rparr>))) = []"
  by (simp add: evals)

text \<open>
  The error field of the release is never read: when the release fails, the deletion goes
  ahead all the same.
\<close>

lemma endSession_closes_after_failed_release:
  "next_outcome w = Err \<and> next_outcome (advance w) = Ok \<longrightarrow>
     fst (endSession sessionId w) = Return ()
     \<and> orders (snd (endSession sessionId w)) = orders w
     \<and> active_sessions (snd (endSession sessionId w))
       = filter (\<lambda>s. session_id s \<noteq> sessionId) (active_sessions w)"
  by (simp add: endSession_eq delete_where_def)

text \<open>The staff page's \<open>terminateSession\<close> marks the session inactive and releases nothing.\<close>

lemma terminateSession_releases_nothing:
  "map claimed_by_user_id (order_items (terminateSession ''S1''
     ((kitchen [held ''A'' ''O3'' ''claimed'' ''W1''] [order_row ''O3'' Preparing])
      \<lparr>active_sessions := [session_row ''S1'' ''W1'' ''R1'']\<rparr>))) = [Some ''W1'']
   \<and> map session_status (active_sessions (terminateSession ''S1''
     ((kitchen [held ''A'' ''O3'' ''claimed'' ''W1''] [order_row ''O3'' Preparing])
      \<lparr>active_sessions := [session_row ''S1'' ''W1'' ''R1'']\<rparr>))) = [''inactive'']"
  by (simp add: evals)
section \<open>Opening a session\<close>

lemma upsert_session_pairs:
  assumes "distinct (map (\<lambda>s. (user_id s, restaurant_id s)) (active_sessions w))"
  shows "distinct (map (\<lambda>s. (user_id s, restaurant_id s))
           (active_sessions (snd (upsert_session uq fresh now userId rid st w))))"
proof -
  have same: "map (\<lambda>s. (user_id s, restaurant_id s))
        (update_where (\<lambda>s. user_id s = userId \<and> restaurant_id s = rid)
           (\<lambda>s. s\<lparr>session_type := Some ''kitchen'', station := Some st,
                   session_status := ''active'', last_heartbeat := Some now,
                   created_at := Some now\<rparr>) (active_sessions w))
      = map (\<lambda>s. (user_id s, restaurant_id s)) (active_sessions w)"
    by (simp add: update_where_def)
  show ?thesis
    using assms
    by (auto simp: upsert_session_def same list_ex_iff)
qed

lemma createKitchenSession_sessions_cases:
  "active_sessions (createKitchenSession uq fresh now userId st w) = active_sessions w
   \<or> (\<exists>rid. active_sessions (createKitchenSession uq fresh now userId st w)
        = active_sessions (snd (upsert_session uq fresh now userId rid st (advance (advance w)))))"
  by (cases "next_outcome w"; cases "next_outcome (advance w)";
      auto simp: createKitchenSession_def store_call_eq select_user_single_def
        split: list.splits)

lemma createKitchenSession_pairs:
  assumes "distinct (map (\<lambda>s. (user_id s, restaurant_id s)) (active_sessions w))"
  shows "distinct (map (\<lambda>s. (user_id s, restaurant_id s))
           (active_sessions (createKitchenSession uq fresh now userId st w)))"
proof -
  have d: "distinct (map (\<lambda>s. (user_id s, restaurant_id s)) (active_sessions (advance (advance w))))"
    using assms by simp
  show ?thesis
    using createKitchenSession_sessions_cases[of uq fresh now userId st w] assms
      upsert_session_pairs[OF d]
    by auto
qed

lemma createKitchenSession_idle:
  assumes "pending_outcomes w = []" and "filter (\<lambda>u. u_id u = userId) (users w) = [u]"
    and "u_restaurant_id u = Some rid" and "rid \<noteq> []"
  shows "createKitchenSession uq fresh now userId st w
         = snd (upsert_session uq fresh now userId rid st w)"
proof -
  have p: "pending_outcomes (snd (select_user_single userId w)) = []"
    using assms by (simp add: select_user_single_def)
  show ?thesis
    using assms
    by (simp add: createKitchenSession_def store_call_idle[OF assms(1)] store_call_idle[of w]
        select_user_single_def truthy_def upsert_session_def store_call_idle)
qed

lemma createSession_cases:
  "(fst (createSession uq fresh now userId rid userName stationId w) = Throw
      \<and> active_sessions (snd (createSession uq fresh now userId rid userName stationId w))
        = active_sessions w)
   \<or> (\<exists>row. fst (createSession uq fresh now userId rid userName stationId w) = Return row
        \<and> active_sessions (snd (createSession uq fresh now userId rid userName stationId w))
          = active_sessions w @ [row]
        \<and> user_id row = userId \<and> restaurant_id row = rid \<and> session_status row = ''active'')"
  by (cases "next_outcome w";
      simp add: createSession_def store_call_eq insert_session_def Let_def)

text \<open>
  C9 (amended). \<open>createKitchenSession\<close> keeps at most one session row per
  (worker, restaurant) pair; given the unique index its conflict target names and no
  store error, opening a session for a pair that already has a row overwrites that row
  (station, status 'active', heartbeat) rather than adding a second one.
  \<open>dbHelpers.createSession\<close> never replaces a prior session: it either throws and leaves
  the table as it is, or appends a new active row for the pair after the existing rows.
\<close>

theorem createKitchenSession_single_session:
  "(distinct (map (\<lambda>s. (user_id s, restaurant_id s)) (active_sessions w)) \<longrightarrow>
      distinct (map (\<lambda>s. (user_id s, restaurant_id s))
        (active_sessions (createKitchenSession uq fresh now userId st w))))
   \<and> (uq \<and> pending_outcomes w = [] \<and> filter (\<lambda>u. u_id u = userId) (users w) = [u]
        \<and> u_restaurant_id u = Some rid \<and> rid \<noteq> []
        \<and> (\<exists>s\<in>set (active_sessions w). user_id s = userId \<and> restaurant_id s = rid) \<longrightarrow>
      active_sessions (createKitchenSession uq fresh now userId st w)
      = map (\<lambda>s. if user_id s = userId \<and> restaurant_id s = rid
                  then s\<lparr>session_type := Some ''kitchen'', station := Some st,
                         session_status := ''active'', last_heartbeat := Some now,
                         created_at := Some now\<rparr>
                  else s) (active_sessions w))
   \<and> ((fst (createSession uq fresh now userId rid' userName stationId w) = Throw
         \<and> active_sessions (snd (createSession uq fresh now userId rid' userName stationId w))
           = active_sessions w)
       \<or> (\<exists>row. fst (createSession uq fresh now userId rid' userName stationId w) = Return row
            \<and> active_sessions (snd (createSession uq fresh now userId rid' userName stationId w))
              = active_sessions w @ [row]
            \<and> user_id row = userId \<and> restaurant_id row = rid'
            \<and> session_status row = ''active''))"
proof (intro conjI impI)
  assume "distinct (map (\<lambda>s. (user_id s, restaurant_id s)) (active_sessions w))"
  then show "distinct (map (\<lambda>s. (user_id s, restaurant_id s))
        (active_sessions (createKitchenSession uq fresh now userId st w)))"
    by (rule createKitchenSession_pairs)
next
  assume h: "uq \<and> pending_outcomes w = [] \<and> filter (\<lambda>u. u_id u = userId) (users w) = [u]
        \<and> u_restaurant_id u = Some rid \<and> rid \<noteq> []
        \<and> (\<exists>s\<in>set (active_sessions w). user_id s = userId \<and> restaurant_id s = rid)"
  then have hs: "pending_outcomes w = []" "filter (\<lambda>u. u_id u = userId) (users w) = [u]"
      "u_restaurant_id u = Some rid" "rid \<noteq> []"
    by blast+
  have "createKitchenSession uq fresh now userId st w
         = snd (upsert_session uq fresh now userId rid st w)"
    by (rule createKitchenSession_idle[OF hs])
  then show "active_sessions (createKitchenSession uq fresh now userId st w)
      = map (\<lambda>s. if user_id s = userId \<and> restaurant_id s = rid
                  then s\<lparr>session_type := Some ''kitchen'', station := Some st,
                         session_status := ''active'', last_heartbeat := Some now,
                         created_at := Some now\<rparr>
                  else s) (active_sessions w)"
    using h by (simp add: upsert_session_def list_ex_iff update_where_def)
next
  show "(fst (createSession uq fresh now userId rid' userName stationId w) = Throw
         \<and> active_sessions (snd (createSession uq fresh now userId rid' userName stationId w))
           = active_sessions w)
       \<or> (\<exists>row. fst (createSession uq fresh now userId rid' userName stationId w) = Return row
            \<and> active_sessions (snd (createSession uq fresh now userId rid' userName stationId w))
              = active_sessions w @ [row]
            \<and> user_id row = userId \<and> restaurant_id row = rid'
            \<and> session_status row = ''active'')"
    by (rule createSession_cases)
qed

theorem createKitchenSession_single_session_witness:
  "createKitchenSession True ''S9'' 7 ''W1'' ''Grill''
     ((kitchen [] [])\<lparr>active_sessions :=
         [(session_row ''S1'' ''W1'' ''R1'')\<lparr>session_status := ''inactive''\<rparr>,
          session_row ''S2'' ''W2'' ''R1'']\<rparr>)
   = (kitchen [] [])\<lparr>active_sessions :=
         [(session_row ''S1'' ''W1'' ''R1'')\<lparr>session_type := Some ''kitchen'',
             station := Some ''Grill'', last_heartbeat := Some 7, created_at := Some 7\<rparr>,
          session_row ''S2'' ''W2'' ''R1'']\<rparr>"
  using createKitchenSession_single_session[of
     "(kitchen [] [])\<lparr>active_sessions :=
         [(session_row ''S1'' ''W1'' ''R1'')\<lparr>session_status := ''inactive''\<rparr>,
          session_row ''S2'' ''W2'' ''R1'']\<rparr>"
     True "''S9''" 7 "''W1''" "''Grill''" "\<lparr>u_id = ''W1'', u_restaurant_id = Some ''R1''\<rparr>"
     "''R1''" "''R1''" "''Ann''" None]
  by (simp add: evals)

text \<open>
  C9 as stated fails for \<open>createSession\<close>: W1 already has the active session S1 at R1;
  without the unique index the call adds a second active session S2 for the same pair,
  and with it the call throws and S1 stays as it was. In neither case is S1 replaced.
\<close>

theorem createSession_second_session_counterexample:
  "map session_id (active_sessions (snd (createSession False ''S2'' 7 ''W1'' ''R1'' ''Ann'' None
     ((kitchen [] [])\<lparr>active_sessions := [session_row ''S1'' ''W1'' ''R1'']\<rparr>))))
     = [''S1'', ''S2'']
   \<and> map user_id (active_sessions (snd (createSession False ''S2'' 7 ''W1'' ''R1'' ''Ann'' None
     ((kitchen [] [])\<lparr>active_sessions := [session_row ''S1'' ''W1'' ''R1'']\<rparr>))))
     = [''W1'', ''W1'']
   \<and> map restaurant_id (active_sessions (snd (createSession False ''S2'' 7 ''W1'' ''R1'' ''Ann'' None
     ((kitchen [] [])\<lparr>active_sessions := [session_row ''S1'' ''W1'' ''R1'']\<rparr>))))
     = [''R1'', ''R1'']
   \<and> map session_status (active_sessions (snd (createSession False ''S2'' 7 ''W1'' ''R1'' ''Ann'' None
     ((kitchen [] [])\<lparr>active_sessions := [session_row ''S1'' ''W1'' ''R1'']\<rparr>))))
     = [''active'', ''active'']
   \<and> createSession True ''S2'' 7 ''W1'' ''R1'' ''Ann'' None
     ((kitchen [] [])\<lparr>active_sessions := [session_row ''S1'' ''W1'' ''R1'']\<rparr>)
     = (Throw, (kitchen [] [])\<lparr>active_sessions := [session_row ''S1'' ''W1'' ''R1'']\<rparr>)"
  by (simp add: evals)

end
